theory Spec2Isabelle
  imports Main "HOL-Library.Word"
begin

unbundle bit_operations_syntax

section \<open>The program: \<^verbatim>\<open>src/elk/samples/entry_point.c\<close>\<close>

text \<open>
  The sample is one C function, \<^verbatim>\<open>main\<close>, for x86-64 Linux (the bytes it jumps to are
  x86-64 code ending in the \<^verbatim>\<open>syscall\<close> instruction). It masks the address of a string
  literal down to a 4 KiB boundary, asks \<^verbatim>\<open>mprotect\<close> to make that page readable and
  executable, and, when that worked, calls the literal's first byte as a function.

  Data: \<^verbatim>\<open>size_t\<close> and pointers are 64-bit words, \<^verbatim>\<open>int\<close> is a 32-bit word.
  Effects: every library call and the indirect call are recorded, in program order, as
  events of a trace. What the operating system answers to \<^verbatim>\<open>mprotect\<close>, and whether the
  called bytes ever return, are outside the program and are parameters of the model.
\<close>

subsection \<open>Types\<close>

type_synonym addr = "64 word"
type_synonym size_t = "64 word"
type_synonym cint = "32 word"

text \<open>
  The constants of \<^verbatim>\<open>sys/mman.h\<close> are not part of the repository. They are taken as
  parameters; \<^verbatim>\<open>PROT_WRITE\<close> is never used by the program and is there to state what the
  program does not request.
\<close>

record mman =
  PROT_READ :: cint
  PROT_WRITE :: cint
  PROT_EXEC :: cint

text \<open>An argument passed to \<^verbatim>\<open>printf\<close> after the format: a pointer (\<^verbatim>\<open>%p\<close>) or an int (\<^verbatim>\<open>%d\<close>).\<close>

datatype arg = PtrArg addr | IntArg cint

text \<open>
  What \<^verbatim>\<open>main\<close> does to the outside: a \<^verbatim>\<open>printf\<close> with its format and arguments, the
  \<^verbatim>\<open>mprotect\<close> system call with its three arguments, and the call through the function
  pointer \<^verbatim>\<open>void (*f)(void)\<close>, which carries a target address and nothing else.
\<close>

datatype event =
    is_Printf: Printf string "arg list"
  | is_Mprotect: Mprotect addr size_t cint
  | is_Call: Call addr

text \<open>
  The environment of one execution: the header constants, the addresses the loader and the
  compiler chose (\<^verbatim>\<open>&main\<close>, the value of the pointer \<^verbatim>\<open>instr\<close>, \<^verbatim>\<open>&region\<close>), the answer of
  the operating system to an \<^verbatim>\<open>mprotect\<close> request (its return value and the value of
  \<^verbatim>\<open>errno\<close> after it), and whether the code at \<^verbatim>\<open>instr\<close> returns to its caller.
\<close>

record env =
  mman_h :: mman
  main_addr :: addr
  instr :: addr
  region_addr :: addr
  mprotect :: "addr \<Rightarrow> size_t \<Rightarrow> cint \<Rightarrow> cint \<times> cint"
  f_returns :: bool

subsection \<open>The code\<close>

text \<open>
  Line 8: the bytes of the string literal \<^verbatim>\<open>instr\<close> points to, without the terminating
  NUL: \<^verbatim>\<open>xor rdi, rdi; mov eax, 0x3c; syscall\<close>.
\<close>

definition instr_bytes :: "8 word list" where
  "instr_bytes = [0x48, 0x31, 0xff, 0xb8, 0x3c, 0x00, 0x00, 0x00, 0x0f, 0x05]"

text \<open>
  Lines 14 and 15: \<^verbatim>\<open>size_t region = (size_t) instr; region = region & (~0xfff);\<close>.
  The literal \<^verbatim>\<open>0xfff\<close> is an \<^verbatim>\<open>int\<close>, so is its complement; the conversion to the
  64-bit \<^verbatim>\<open>size_t\<close> extends the sign.
\<close>

definition region :: "addr \<Rightarrow> size_t" where
  "region p = (let region = p in region AND scast (NOT (0xfff :: cint)))"

text \<open>Line 21: the length passed to \<^verbatim>\<open>mprotect\<close>, the literal \<^verbatim>\<open>0x1000\<close>.\<close>

definition mprotect_len :: size_t where
  "mprotect_len = 0x1000"

text \<open>Line 22: the protection passed to \<^verbatim>\<open>mprotect\<close>, \<^verbatim>\<open>PROT_READ | PROT_EXEC\<close>.\<close>

definition mprotect_prot :: "mman \<Rightarrow> cint" where
  "mprotect_prot h = PROT_READ h OR PROT_EXEC h"

text \<open>Lines 19 to 22: what the operating system answers to the one request of \<^verbatim>\<open>main\<close>.\<close>

definition mprotect_call :: "env \<Rightarrow> cint \<times> cint" where
  "mprotect_call e = mprotect e (region (instr e)) mprotect_len (mprotect_prot (mman_h e))"

text \<open>
  Lines 10 to 33. The result is the trace and the value \<^verbatim>\<open>main\<close> returns: 1 on the error
  path, 0 when the called code returns and control falls off the end of \<^verbatim>\<open>main\<close>, and
  nothing when the called code never returns.
\<close>

definition main :: "env \<Rightarrow> event list \<times> cint option" where
  "main e =
    (let t1 = [Printf ''        main @ %p\<newline>'' [PtrArg (main_addr e)],
               Printf ''instructions @ %p\<newline>'' [PtrArg (instr e)]];
         t2 = t1 @ [Printf ''        page @ %p\<newline>'' [PtrArg (region_addr e)],
                    Printf ''making it executable...\<newline>'' []];
         (ret, errno) = mprotect_call e;
         t3 = t2 @ [Mprotect (region (instr e)) mprotect_len (mprotect_prot (mman_h e))]
     in if ret \<noteq> 0
        then (t3 @ [Printf ''failed, error: %d\<newline>'' [IntArg errno]], Some 1)
        else (t3 @ [Printf ''doing the jump thing\<newline>'' [], Call (instr e)],
              if f_returns e then Some 0 else None))"

subsection \<open>Concrete executions\<close>

text \<open>The values of the header on Linux.\<close>

definition linux_mman :: mman where
  "linux_mman = \<lparr>PROT_READ = 1, PROT_WRITE = 2, PROT_EXEC = 4\<rparr>"

text \<open>An execution in which the request is granted; the called bytes exit the process.\<close>

definition env_ok :: env where
  "env_ok = \<lparr>mman_h = linux_mman, main_addr = 0x401136, instr = 0x402010,
     region_addr = 0x7ffd4a3b1c28, mprotect = (\<lambda>a l p. (0, 0)), f_returns = False\<rparr>"

text \<open>An execution in which the request is refused with \<^verbatim>\<open>EACCES\<close> (13).\<close>

definition env_fail :: env where
  "env_fail = \<lparr>mman_h = linux_mman, main_addr = 0x401136, instr = 0x402010,
     region_addr = 0x7ffd4a3b1c28, mprotect = (\<lambda>a l p. (- 1, 13)), f_returns = False\<rparr>"

subsection \<open>The statements of the specification\<close>

text \<open>
  These predicates follow the words of the specification, not the code; they are what the
  code is compared with. Addresses and lengths are read as unbounded naturals, as the
  specification's arithmetic is.

  The Region Resolver for a page size \<open>P\<close> and an address \<open>A\<close>: the base is \<open>A\<close> rounded
  down to a multiple of \<open>P\<close>, the length is one page, and the region holds \<open>A\<close>. The code
  has no page size parameter, so the region is the one \<^verbatim>\<open>main\<close> requests for \<open>A\<close>.
\<close>

definition resolver_claim :: "nat \<Rightarrow> addr \<Rightarrow> bool" where
  "resolver_claim P A =
    (let base = unat (region A); len = unat mprotect_len
     in base = unat A div P * P \<and> len = P \<and> base mod P = 0 \<and> base \<le> unat A \<and> unat A < base + len)"

text \<open>
  A blob of \<open>n\<close> bytes at address \<open>a\<close>: its last byte is on another page than its first;
  on the very next page; and the blob lies inside a region given by base and length.
\<close>

definition crosses_page_boundary :: "nat \<Rightarrow> nat \<Rightarrow> nat \<Rightarrow> bool" where
  "crosses_page_boundary P a n = ((a + n - 1) div P \<noteq> a div P)"

definition straddles_two_pages :: "nat \<Rightarrow> nat \<Rightarrow> nat \<Rightarrow> bool" where
  "straddles_two_pages P a n = ((a + n - 1) div P = a div P + 1)"

definition region_covers :: "nat \<Rightarrow> nat \<Rightarrow> nat \<Rightarrow> nat \<Rightarrow> bool" where
  "region_covers b len a n = (b \<le> a \<and> a + n \<le> b + len)"

definition straddle_claim :: "nat \<Rightarrow> addr \<Rightarrow> nat \<Rightarrow> bool" where
  "straddle_claim P A n =
    (crosses_page_boundary P (unat A) n \<longrightarrow>
       region_covers (unat (region A)) (unat mprotect_len) (unat A) n \<and>
       (straddles_two_pages P (unat A) n \<longrightarrow> 2 * P \<le> unat mprotect_len))"

text \<open>The address \<open>x\<close> lies in the region that \<^verbatim>\<open>main\<close> requests for a blob at \<open>A\<close>.\<close>

definition in_region :: "addr \<Rightarrow> nat \<Rightarrow> bool" where
  "in_region A x = (unat (region A) \<le> x \<and> x < unat (region A) + unat mprotect_len)"

text \<open>The events of a trace after its first \<^verbatim>\<open>mprotect\<close> and before the next call into a blob.\<close>

definition between_protect_and_call :: "event list \<Rightarrow> event list" where
  "between_protect_and_call t =
    takeWhile (\<lambda>ev. \<not> is_Call ev) (tl (dropWhile (\<lambda>ev. \<not> is_Mprotect ev) t))"

text \<open>
  An execution with \<^verbatim>\<open>instr\<close> null, where the operating system refuses the request with
  \<^verbatim>\<open>ENOMEM\<close> (12) since nothing is mapped at 0, and one whose blob starts six bytes
  before the end of a page.
\<close>

definition env_null :: env where
  "env_null = env_ok\<lparr>instr := 0, mprotect := (\<lambda>a l p. (- 1, 12))\<rparr>"

definition env_unaligned :: env where
  "env_unaligned = env_ok\<lparr>instr := 0x402ffa\<rparr>"

section \<open>The page arithmetic\<close>

lemma page_mask_not: "(scast (NOT (0xfff :: cint)) :: size_t) = NOT (mask 12)"
  by (simp add: mask_eq_exp_minus_1)

lemma region_push_drop: "region a = push_bit 12 (drop_bit 12 a)"
  unfolding region_def Let_def page_mask_not
  by (rule bit_eqI) (auto simp add: bit_simps)

lemma unat_region: "unat (region a) = unat a div 4096 * 4096"
proof -
  have "unat a div 4096 * 4096 \<le> unat a"
    by simp
  also have "unat a < 2 ^ 64"
    using unsigned_less [of a] by simp
  finally have small: "unat a div 4096 * 4096 < 2 ^ 64" .
  have "unat (push_bit 12 (drop_bit 12 a)) = take_bit 64 (push_bit 12 (drop_bit 12 (unat a)))"
    by (simp add: unsigned_push_bit_eq unat_drop_bit_eq)
  also have "\<dots> = take_bit 64 (unat a div 4096 * 4096)"
    by (simp add: push_bit_eq_mult drop_bit_eq_div)
  also have "\<dots> = unat a div 4096 * 4096"
    using small by (simp add: take_bit_nat_eq_self)
  finally show ?thesis
    by (simp add: region_push_drop)
qed

lemma unat_mprotect_len: "unat mprotect_len = 4096"
  by (simp add: mprotect_len_def)

lemma floor_page_eq_iff: "n div 4096 * 4096 = n \<longleftrightarrow> n mod 4096 = 0" for n :: nat
  using div_mult_mod_eq [of n 4096] by linarith

lemma floor_page_upper: "n < n div 4096 * 4096 + 4096" for n :: nat
  using div_mult_mod_eq [of n 4096] mod_less_divisor [of 4096 n] by linarith

lemma floor_page_offset:
  "n div 4096 * 4096 \<le> n + i \<and> n + i < n div 4096 * 4096 + 4096 \<longleftrightarrow> n mod 4096 + i < 4096"
  for n i :: nat
  using div_mult_mod_eq [of n 4096] by linarith

lemma region_aligned_iff: "region a = a \<longleftrightarrow> a AND 0xfff = 0"
proof -
  have m: "(0xfff :: addr) = mask 12"
    by (simp add: mask_eq_exp_minus_1)
  have "unat (a AND mask 12) = unat (take_bit 12 a)"
    by (simp only: take_bit_eq_mask)
  also have "\<dots> = take_bit 12 (unat a)"
    by (rule unsigned_take_bit_eq)
  also have "\<dots> = unat a mod 2 ^ 12"
    by (rule take_bit_eq_mod)
  finally have "unat (a AND mask 12) = unat a mod 4096"
    by simp
  then have "a AND 0xfff = 0 \<longleftrightarrow> unat a mod 4096 = 0"
    by (simp add: m unat_eq_0 [symmetric])
  moreover have "region a = a \<longleftrightarrow> unat a div 4096 * 4096 = unat a"
    by (simp add: word_unat_eq_iff unat_region)
  ultimately show ?thesis
    by (simp add: floor_page_eq_iff)
qed

section \<open>The trace of main\<close>

lemma main_fail:
  "fst (mprotect_call e) \<noteq> 0 \<Longrightarrow> main e =
    ([Printf ''        main @ %p\<newline>'' [PtrArg (main_addr e)],
      Printf ''instructions @ %p\<newline>'' [PtrArg (instr e)],
      Printf ''        page @ %p\<newline>'' [PtrArg (region_addr e)],
      Printf ''making it executable...\<newline>'' [],
      Mprotect (region (instr e)) mprotect_len (mprotect_prot (mman_h e)),
      Printf ''failed, error: %d\<newline>'' [IntArg (snd (mprotect_call e))]], Some 1)"
  by (cases "mprotect_call e") (simp add: main_def Let_def)

lemma main_success:
  "fst (mprotect_call e) = 0 \<Longrightarrow> main e =
    ([Printf ''        main @ %p\<newline>'' [PtrArg (main_addr e)],
      Printf ''instructions @ %p\<newline>'' [PtrArg (instr e)],
      Printf ''        page @ %p\<newline>'' [PtrArg (region_addr e)],
      Printf ''making it executable...\<newline>'' [],
      Mprotect (region (instr e)) mprotect_len (mprotect_prot (mman_h e)),
      Printf ''doing the jump thing\<newline>'' [],
      Call (instr e)], if f_returns e then Some 0 else None)"
  by (cases "mprotect_call e") (simp add: main_def Let_def)

lemma mprotect_call_env_ok: "mprotect_call env_ok = (0, 0)"
  by (simp add: mprotect_call_def env_ok_def)

lemma mprotect_call_env_fail: "mprotect_call env_fail = (- 1, 13)"
  by (simp add: mprotect_call_def env_fail_def)

lemma mprotect_call_env_null: "mprotect_call env_null = (- 1, 12)"
  by (simp add: mprotect_call_def env_null_def env_ok_def)

lemma mprotect_call_env_unaligned: "mprotect_call env_unaligned = (0, 0)"
  by (simp add: mprotect_call_def env_unaligned_def env_ok_def)

lemma env_fields:
  "instr env_ok = 0x402010" "mman_h env_ok = linux_mman"
  "instr env_fail = 0x402010" "mman_h env_fail = linux_mman"
  "instr env_null = 0" "mman_h env_null = linux_mman"
  "instr env_unaligned = 0x402ffa" "mman_h env_unaligned = linux_mman"
  by (simp_all add: env_ok_def env_fail_def env_null_def env_unaligned_def)

lemma mprotect_prot_linux: "mprotect_prot linux_mman = 5"
  by (simp add: mprotect_prot_def linux_mman_def)

lemma region_examples:
  "region 0 = 0" "region 0x1000 = 0x1000" "region 0x402010 = 0x402000"
  "region 0x402ffa = 0x402000"
  by (simp_all add: region_def)

section \<open>The claims\<close>

text \<open>
  C1, as stated: for every address and every page size that is a power of two, the region
  has its base at the address rounded down to a multiple of the page size and is one page
  long. The code masks with the constant \<^verbatim>\<open>0xfff\<close> and passes the constant \<^verbatim>\<open>0x1000\<close>,
  whatever the page size: at the page size \<open>8192 = 2 ^ 13\<close> and the address \<^verbatim>\<open>0x1000\<close> the
  base is \<^verbatim>\<open>0x1000\<close>, which is not a multiple of 8192.
\<close>

theorem resolver_other_page_size_counterexample:
  "(8192 :: nat) = 2 ^ 13 \<and> \<not> resolver_claim 8192 0x1000"
proof -
  have "unat (region 0x1000) = 4096"
    by (simp add: region_examples)
  then have "\<not> resolver_claim 8192 0x1000"
    by (simp add: resolver_claim_def Let_def)
  then show ?thesis
    by simp
qed

text \<open>
  C1, amended: for every address \<open>A\<close>, at the page size 4096 that the code fixes, the
  region's base is \<open>A\<close> rounded down to a multiple of 4096, its length is 4096, the base is
  a multiple of 4096 and base \<open>\<le> A <\<close> base + length, read as unbounded integers.
\<close>

theorem resolver_page_4096: "resolver_claim 4096 A"
proof -
  have "unat A div 4096 * 4096 \<le> unat A"
    by simp
  moreover have "unat A < unat A div 4096 * 4096 + 4096"
    by (rule floor_page_upper)
  ultimately show ?thesis
    by (simp add: resolver_claim_def Let_def unat_region unat_mprotect_len)
qed

text \<open>
  C2, as stated: when the blob's bytes cross a page boundary the region covers every page
  the blob touches, and is at least two pages long when the blob lies on two pages. With
  the ten bytes of \<^verbatim>\<open>instr\<close> at \<^verbatim>\<open>0x402ffa\<close> the blob ends at \<^verbatim>\<open>0x403003\<close>, on the next
  page, and the region requested is still the one page at \<^verbatim>\<open>0x402000\<close>.
\<close>

theorem straddling_blob_counterexample:
  "crosses_page_boundary 4096 (unat (0x402ffa :: addr)) (length instr_bytes) \<and>
   straddles_two_pages 4096 (unat (0x402ffa :: addr)) (length instr_bytes) \<and>
   region 0x402ffa = 0x402000 \<and> mprotect_len = 0x1000 \<and>
   \<not> region_covers (unat (region 0x402ffa)) (unat mprotect_len)
       (unat (0x402ffa :: addr)) (length instr_bytes) \<and>
   \<not> straddle_claim 4096 0x402ffa (length instr_bytes)"
proof -
  have c: "crosses_page_boundary 4096 (unat (0x402ffa :: addr)) (length instr_bytes)"
    by (simp add: crosses_page_boundary_def instr_bytes_def)
  have s: "straddles_two_pages 4096 (unat (0x402ffa :: addr)) (length instr_bytes)"
    by (simp add: straddles_two_pages_def instr_bytes_def)
  have n: "\<not> region_covers (unat (region 0x402ffa)) (unat mprotect_len)
      (unat (0x402ffa :: addr)) (length instr_bytes)"
    by (simp add: region_covers_def region_examples mprotect_len_def instr_bytes_def)
  from c n have "\<not> straddle_claim 4096 0x402ffa (length instr_bytes)"
    by (simp add: straddle_claim_def)
  with c s n show ?thesis
    by (simp add: region_examples mprotect_len_def)
qed

text \<open>
  C2, amended: the region is always the single page of 4096 bytes that holds the blob's
  first byte, whatever the blob's length. The byte at offset \<open>i\<close> of a blob at \<open>A\<close> lies
  in the region exactly when \<open>A mod 4096 + i < 4096\<close>, that is when it is on the first
  page; the bytes of a blob past the end of that page are not covered.
\<close>

theorem region_is_first_page_only:
  "unat mprotect_len = 4096 \<and> unat (region A) = unat A div 4096 * 4096 \<and>
   in_region A (unat A + i) = (unat A mod 4096 + i < 4096)"
  by (simp add: in_region_def unat_region unat_mprotect_len floor_page_offset)

theorem region_is_first_page_only_witness:
  "in_region 0x402ffa (unat (0x402ffa :: addr) + 5) \<and>
   \<not> in_region 0x402ffa (unat (0x402ffa :: addr) + 6)"
  using region_is_first_page_only [of "0x402ffa" 5] region_is_first_page_only [of "0x402ffa" 6]
  by simp

text \<open>
  C3: in every execution in which \<^verbatim>\<open>mprotect\<close> returns a nonzero value, the last thing
  \<^verbatim>\<open>main\<close> does is print the value of \<^verbatim>\<open>errno\<close> that the operating system left, it returns
  1 to its caller, and the trace holds no call into the blob.
\<close>

theorem mprotect_failure_reported:
  "fst (mprotect_call e) \<noteq> 0 \<Longrightarrow>
   last (fst (main e)) = Printf ''failed, error: %d\<newline>'' [IntArg (snd (mprotect_call e))] \<and>
   filter is_Call (fst (main e)) = [] \<and>
   snd (main e) = Some 1"
  by (simp add: main_fail)

theorem mprotect_failure_reported_witness:
  "fst (mprotect_call env_fail) \<noteq> 0 \<and>
   last (fst (main env_fail)) = Printf ''failed, error: %d\<newline>'' [IntArg 13] \<and>
   filter is_Call (fst (main env_fail)) = [] \<and>
   snd (main env_fail) = Some 1"
  using mprotect_failure_reported [of env_fail]
  by (simp add: mprotect_call_env_fail)

text \<open>
  C4, as stated: a null blob address is rejected with a usage error before any call to the
  operating system. \<^verbatim>\<open>main\<close> checks nothing: with \<^verbatim>\<open>instr\<close> null it computes the region
  at 0 of length \<^verbatim>\<open>0x1000\<close> and calls \<^verbatim>\<open>mprotect\<close> on it; the error it then reports is the
  one the operating system gave.
\<close>

theorem null_address_counterexample:
  "instr env_null = 0 \<and>
   filter is_Mprotect (fst (main env_null)) = [Mprotect 0 0x1000 5] \<and>
   last (fst (main env_null)) = Printf ''failed, error: %d\<newline>'' [IntArg 12]"
proof -
  have "fst (mprotect_call env_null) \<noteq> 0"
    by (simp add: mprotect_call_env_null)
  then have "main env_null =
    ([Printf ''        main @ %p\<newline>'' [PtrArg (main_addr env_null)],
      Printf ''instructions @ %p\<newline>'' [PtrArg (instr env_null)],
      Printf ''        page @ %p\<newline>'' [PtrArg (region_addr env_null)],
      Printf ''making it executable...\<newline>'' [],
      Mprotect (region (instr env_null)) mprotect_len (mprotect_prot (mman_h env_null)),
      Printf ''failed, error: %d\<newline>'' [IntArg (snd (mprotect_call env_null))]], Some 1)"
    by (rule main_fail)
  then show ?thesis
    by (simp add: env_fields mprotect_prot_linux mprotect_len_def region_examples
        mprotect_call_env_null)
qed

text \<open>
  C4, amended: no input is rejected. For every blob address, null included, \<^verbatim>\<open>main\<close>
  computes the region and asks the operating system for the permission transition on it,
  and it returns the error status 1 only when that request itself fails. A blob length and
  a page size are not inputs of the code, and there is no usage error.
\<close>

theorem no_input_rejected:
  "Mprotect (region (instr e)) mprotect_len (mprotect_prot (mman_h e)) \<in> set (fst (main e)) \<and>
   (snd (main e) = Some 1) = (fst (mprotect_call e) \<noteq> 0)"
  by (cases "fst (mprotect_call e) = 0") (simp_all add: main_success main_fail)

text \<open>
  C5: in every execution the steps run in order. Leaving the diagnostic output aside, the
  trace is the \<^verbatim>\<open>mprotect\<close> request, whose address and length are the region computed
  from \<^verbatim>\<open>instr\<close>, followed by the call into the blob when the request returned 0 and by
  nothing when it did not.
\<close>

theorem pipeline_order:
  "filter (\<lambda>ev. \<not> is_Printf ev) (fst (main e)) =
     Mprotect (region (instr e)) mprotect_len (mprotect_prot (mman_h e)) #
     (if fst (mprotect_call e) = 0 then [Call (instr e)] else [])"
  by (cases "fst (mprotect_call e) = 0") (simp_all add: main_success main_fail)

theorem pipeline_order_witness:
  "filter (\<lambda>ev. \<not> is_Printf ev) (fst (main env_ok)) =
     [Mprotect 0x402000 0x1000 5, Call 0x402010] \<and>
   filter (\<lambda>ev. \<not> is_Printf ev) (fst (main env_fail)) = [Mprotect 0x402000 0x1000 5]"
  using pipeline_order [of env_ok] pipeline_order [of env_fail]
  by (simp add: mprotect_call_env_ok mprotect_call_env_fail env_fields mprotect_prot_linux
      mprotect_len_def region_examples)

text \<open>
  C6: when the permission transition succeeded, the one call of the execution is the last
  event of the trace and its target is the address held in \<^verbatim>\<open>instr\<close>, the blob's first
  byte; the call is through a \<^verbatim>\<open>void (*)(void)\<close> pointer, so it passes no argument and
  takes no result. When \<^verbatim>\<open>instr\<close> is not page-aligned the target differs from the base of
  the region, and there is no call to that base.
\<close>

theorem invoker_target:
  "fst (mprotect_call e) = 0 \<Longrightarrow>
   filter is_Call (fst (main e)) = [Call (instr e)] \<and>
   last (fst (main e)) = Call (instr e) \<and>
   (instr e AND 0xfff \<noteq> 0 \<longrightarrow> Call (region (instr e)) \<notin> set (fst (main e)))"
  using region_aligned_iff [of "instr e"] by (simp add: main_success)

theorem invoker_target_witness:
  "fst (mprotect_call env_unaligned) = 0 \<and>
   instr env_unaligned AND 0xfff \<noteq> 0 \<and>
   filter is_Call (fst (main env_unaligned)) = [Call 0x402ffa] \<and>
   last (fst (main env_unaligned)) = Call 0x402ffa \<and>
   Call 0x402000 \<notin> set (fst (main env_unaligned))"
proof -
  have i: "instr env_unaligned = 0x402ffa"
    by (simp add: env_fields)
  have r: "fst (mprotect_call env_unaligned) = 0"
    by (simp add: mprotect_call_env_unaligned)
  have a: "(0x402ffa :: addr) AND 0xfff \<noteq> 0"
    by simp
  from invoker_target [OF r] a show ?thesis
    by (simp add: i r region_examples)
qed

text \<open>
  C8: in every execution, the only thing \<^verbatim>\<open>main\<close> does besides printing and calling the
  blob is the one \<^verbatim>\<open>mprotect\<close> request on the region computed from \<^verbatim>\<open>instr\<close>: it makes no
  request that maps, unmaps, allocates, frees or copies memory.
\<close>

theorem only_effect_is_mprotect:
  "filter (\<lambda>ev. \<not> is_Printf ev \<and> \<not> is_Call ev) (fst (main e)) =
     [Mprotect (region (instr e)) mprotect_len (mprotect_prot (mman_h e))]"
  by (cases "fst (mprotect_call e) = 0") (simp_all add: main_success main_fail)

theorem only_effect_is_mprotect_witness:
  "filter (\<lambda>ev. \<not> is_Printf ev \<and> \<not> is_Call ev) (fst (main env_unaligned)) =
     [Mprotect 0x402000 0x1000 5]"
  using only_effect_is_mprotect [of env_unaligned]
  by (simp add: env_fields mprotect_prot_linux mprotect_len_def region_examples)

text \<open>
  C9: every \<^verbatim>\<open>mprotect\<close> request in a trace of \<^verbatim>\<open>main\<close> asks for exactly
  \<^verbatim>\<open>PROT_READ | PROT_EXEC\<close>; with a header in which \<^verbatim>\<open>PROT_WRITE\<close> shares no bit with those
  two flags, the write bit is not set in the request.
\<close>

theorem requested_protection:
  "Mprotect a l p \<in> set (fst (main e)) \<Longrightarrow>
   p = PROT_READ (mman_h e) OR PROT_EXEC (mman_h e) \<and>
   (PROT_WRITE (mman_h e) AND (PROT_READ (mman_h e) OR PROT_EXEC (mman_h e)) = 0 \<longrightarrow>
      p AND PROT_WRITE (mman_h e) = 0)"
  by (cases "fst (mprotect_call e) = 0")
    (auto simp add: main_success main_fail mprotect_prot_def and.commute)

theorem requested_protection_witness:
  "Mprotect 0x402000 0x1000 5 \<in> set (fst (main env_ok)) \<and>
   PROT_WRITE (mman_h env_ok) AND (PROT_READ (mman_h env_ok) OR PROT_EXEC (mman_h env_ok)) = 0 \<and>
   (5 :: cint) = PROT_READ (mman_h env_ok) OR PROT_EXEC (mman_h env_ok) \<and>
   (5 :: cint) AND PROT_WRITE (mman_h env_ok) = 0"
proof -
  have m: "Mprotect 0x402000 0x1000 5 \<in> set (fst (main env_ok))"
    using main_success [of env_ok]
    by (simp add: mprotect_call_env_ok env_fields mprotect_prot_linux mprotect_len_def
        region_examples)
  have w: "PROT_WRITE (mman_h env_ok) AND (PROT_READ (mman_h env_ok) OR PROT_EXEC (mman_h env_ok)) = 0"
    by (simp add: env_fields linux_mman_def)
  from requested_protection [OF m] w show ?thesis
    using m by simp
qed

text \<open>
  C10, as stated: when \<^verbatim>\<open>mprotect\<close> returns 0, \<^verbatim>\<open>main\<close> does nothing between the permission
  change and the control transfer. In the execution \<open>env_ok\<close> the request returns 0 and
  \<^verbatim>\<open>main\<close> prints a line between the two.
\<close>

theorem action_before_jump_counterexample:
  "fst (mprotect_call env_ok) = 0 \<and>
   between_protect_and_call (fst (main env_ok)) = [Printf ''doing the jump thing\<newline>'' []]"
proof -
  have r: "fst (mprotect_call env_ok) = 0"
    by (simp add: mprotect_call_env_ok)
  show ?thesis
    by (simp add: r main_success [OF r] between_protect_and_call_def)
qed

text \<open>
  C10, amended: \<^verbatim>\<open>main\<close> returns 1 if and only if \<^verbatim>\<open>mprotect\<close> returns a nonzero value;
  when \<^verbatim>\<open>mprotect\<close> returns 0, \<^verbatim>\<open>main\<close> ends with the control transfer into the blob, and
  the only action between the permission change and that transfer is printing the line
  \<^verbatim>\<open>doing the jump thing\<close>: from the permission change on, the trace is the request on the
  region of \<^verbatim>\<open>instr\<close>, that one line, and the call to \<^verbatim>\<open>instr\<close>, and nothing else.
\<close>

theorem exit_status_and_jump:
  "(snd (main e) = Some 1) = (fst (mprotect_call e) \<noteq> 0) \<and>
   (fst (mprotect_call e) = 0 \<longrightarrow>
      dropWhile (\<lambda>ev. \<not> is_Mprotect ev) (fst (main e)) =
        [Mprotect (region (instr e)) mprotect_len (mprotect_prot (mman_h e)),
         Printf ''doing the jump thing\<newline>'' [],
         Call (instr e)] \<and>
      filter is_Call (fst (main e)) = [Call (instr e)] \<and>
      last (fst (main e)) = Call (instr e) \<and>
      between_protect_and_call (fst (main e)) = [Printf ''doing the jump thing\<newline>'' []])"
proof (cases "fst (mprotect_call e) = 0")
  case True
  then show ?thesis
    by (simp add: main_success between_protect_and_call_def)
next
  case False
  then show ?thesis
    by (simp add: main_fail)
qed

theorem exit_status_and_jump_witness:
  "fst (mprotect_call env_fail) \<noteq> 0 \<and> snd (main env_fail) = Some 1 \<and>
   fst (mprotect_call env_ok) = 0 \<and> snd (main env_ok) \<noteq> Some 1 \<and>
   dropWhile (\<lambda>ev. \<not> is_Mprotect ev) (fst (main env_ok)) =
     [Mprotect 0x402000 0x1000 5, Printf ''doing the jump thing\<newline>'' [], Call 0x402010] \<and>
   filter is_Call (fst (main env_ok)) = [Call 0x402010] \<and>
   last (fst (main env_ok)) = Call 0x402010 \<and>
   between_protect_and_call (fst (main env_ok)) = [Printf ''doing the jump thing\<newline>'' []]"
proof -
  have ok: "fst (mprotect_call env_ok) = 0"
    by (simp add: mprotect_call_env_ok)
  have fail: "fst (mprotect_call env_fail) \<noteq> 0"
    by (simp add: mprotect_call_env_fail)
  from exit_status_and_jump [of env_fail] exit_status_and_jump [of env_ok] ok fail
  show ?thesis
    by (simp add: env_fields mprotect_prot_linux mprotect_len_def region_examples)
qed

end
